theory Spec2Isabelle
  imports Main
begin

section \<open>Python values of the handler\<close>

text \<open>
  The handler \<^verbatim>\<open>lambda_handler\<close> of \<^verbatim>\<open>drawing-app/lambda_function.py\<close> works on
  values that come out of a JSON parser: the invocation event, the request body, the
  reply of the generation API. They are dynamically typed, and the code probes them with
  \<^verbatim>\<open>isinstance\<close>, \<^verbatim>\<open>in\<close>, \<^verbatim>\<open>.get\<close>, \<^verbatim>\<open>len\<close> and truthiness. The model keeps them as
  one datatype. A Python \<^verbatim>\<open>dict\<close> is an association list in insertion order (looked up
  with \<open>map_of\<close>); a \<^verbatim>\<open>str\<close> is a \<open>string\<close>, one element for each code point.
\<close>

datatype pyfloat = Finite int int | Infinite bool | NaN
  \<comment> \<open>a Python float; \<open>Finite m e\<close> stands for \<open>m * 2 ^ e\<close>. The handler observes of a
      float only whether it is zero.\<close>

datatype json =
    JNull
  | JBool bool
  | JInt int
  | JFloat pyfloat
  | JString string
  | JArray "json list"
  | JObject "(string \<times> json) list"

text \<open>Exceptions that the dynamic operations raise; only the kind is kept.\<close>

datatype exn = TypeError | AttributeError | KeyError | IndexError

fun truthy :: "json \<Rightarrow> bool" where
  "truthy JNull = False"
| "truthy (JBool b) = b"
| "truthy (JInt i) = (i \<noteq> 0)"
| "truthy (JFloat f) = (case f of Finite m e \<Rightarrow> m \<noteq> 0 | _ \<Rightarrow> True)"
| "truthy (JString s) = (s \<noteq> [])"
| "truthy (JArray xs) = (xs \<noteq> [])"
| "truthy (JObject kvs) = (kvs \<noteq> [])"

text \<open>\<^verbatim>\<open>len(v)\<close>: defined on strings, lists and dicts, a \<^verbatim>\<open>TypeError\<close> on the rest.\<close>

fun py_len :: "json \<Rightarrow> exn + nat" where
  "py_len (JString s) = Inr (length s)"
| "py_len (JArray xs) = Inr (length xs)"
| "py_len (JObject kvs) = Inr (length kvs)"
| "py_len _ = Inl TypeError"

text \<open>The text \<^verbatim>\<open>str(e)\<close> of the \<^verbatim>\<open>TypeError\<close> that \<^verbatim>\<open>len(v)\<close> raises.\<close>

fun type_name :: "json \<Rightarrow> string" where
  "type_name JNull = ''NoneType''"
| "type_name (JBool b) = ''bool''"
| "type_name (JInt i) = ''int''"
| "type_name (JFloat f) = ''float''"
| "type_name (JString s) = ''str''"
| "type_name (JArray xs) = ''list''"
| "type_name (JObject kvs) = ''dict''"

definition len_error_message :: "json \<Rightarrow> string" where
  "len_error_message v = ''object of type '' @ [CHR 0x27] @ type_name v @ [CHR 0x27] @ '' has no len()''"

text \<open>\<^verbatim>\<open>s.startswith(p)\<close> on strings.\<close>

definition startswith :: "string \<Rightarrow> string \<Rightarrow> bool" where
  "startswith s p = (take (length p) s = p)"

text \<open>\<^verbatim>\<open>sub in s\<close> on strings: \<open>sub\<close> occurs in \<open>s\<close> as a contiguous piece.\<close>

fun str_contains :: "string \<Rightarrow> string \<Rightarrow> bool" where
  "str_contains sub [] = (sub = [])"
| "str_contains sub (c # cs) = (startswith (c # cs) sub \<or> str_contains sub cs)"

text \<open>
  \<^verbatim>\<open>s.split(sep)\<close> with a one-character separator: every occurrence of the separator
  cuts, and the empty string gives one empty piece.
\<close>

fun str_split :: "char \<Rightarrow> string \<Rightarrow> string list" where
  "str_split sep [] = [[]]"
| "str_split sep (c # cs) =
     (if c = sep then [] # str_split sep cs
      else (case str_split sep cs of
              [] \<Rightarrow> [[c]]
            | p # ps \<Rightarrow> (c # p) # ps))"

text \<open>\<^verbatim>\<open>xs[i]\<close> on a list, for \<open>i \<ge> 0\<close>: an \<^verbatim>\<open>IndexError\<close> out of range.\<close>

definition py_index :: "'a list \<Rightarrow> nat \<Rightarrow> exn + 'a" where
  "py_index xs i = (if i < length xs then Inr (xs ! i) else Inl IndexError)"

text \<open>\<^verbatim>\<open>k in v\<close> for a string \<open>k\<close>: a key of a dict, an element of a list, a piece of a string.\<close>

fun py_contains :: "string \<Rightarrow> json \<Rightarrow> exn + bool" where
  "py_contains k (JObject kvs) = Inr (map_of kvs k \<noteq> None)"
| "py_contains k (JArray xs) = Inr (JString k \<in> set xs)"
| "py_contains k (JString s) = Inr (str_contains k s)"
| "py_contains k _ = Inl TypeError"

text \<open>\<^verbatim>\<open>v[k]\<close> for a string \<open>k\<close>: only a dict can be subscripted with a string.\<close>

fun py_getitem :: "json \<Rightarrow> string \<Rightarrow> exn + json" where
  "py_getitem (JObject kvs) k = (case map_of kvs k of None \<Rightarrow> Inl KeyError | Some v \<Rightarrow> Inr v)"
| "py_getitem _ k = Inl TypeError"

text \<open>
  \<^verbatim>\<open>v[0]\<close>: the first element of a list, the first character of a string; a dict parsed
  from JSON has string keys only, so \<^verbatim>\<open>0\<close> is never a key of it.
\<close>

fun py_getitem0 :: "json \<Rightarrow> exn + json" where
  "py_getitem0 (JArray xs) = py_index xs 0"
| "py_getitem0 (JString s) = (case s of [] \<Rightarrow> Inl IndexError | c # _ \<Rightarrow> Inr (JString [c]))"
| "py_getitem0 (JObject kvs) = Inl KeyError"
| "py_getitem0 _ = Inl TypeError"

text \<open>\<^verbatim>\<open>v.get(k, default)\<close>: a method of dicts only.\<close>

fun py_get :: "json \<Rightarrow> string \<Rightarrow> json \<Rightarrow> exn + json" where
  "py_get (JObject kvs) k dflt = (case map_of kvs k of None \<Rightarrow> Inr dflt | Some v \<Rightarrow> Inr v)"
| "py_get _ k dflt = Inl AttributeError"

text \<open>\<^verbatim>\<open>v.startswith(p)\<close>: a method of strings only.\<close>

fun py_startswith :: "json \<Rightarrow> string \<Rightarrow> exn + bool" where
  "py_startswith (JString s) p = Inr (startswith s p)"
| "py_startswith _ p = Inl AttributeError"

text \<open>
  \<^verbatim>\<open>for p in v\<close>: the elements of a list, the keys of a dict, the characters of a string.
\<close>

fun py_iter :: "json \<Rightarrow> exn + json list" where
  "py_iter (JArray xs) = Inr xs"
| "py_iter (JObject kvs) = Inr (map (\<lambda>kv. JString (fst kv)) kvs)"
| "py_iter (JString s) = Inr (map (\<lambda>c. JString [c]) s)"
| "py_iter _ = Inl TypeError"

text \<open>
  A key of \<^verbatim>\<open>style_prompts.get(style, ...)\<close> must be hashable: lists and dicts are not.
\<close>

fun hashable :: "json \<Rightarrow> bool" where
  "hashable (JArray xs) = False"
| "hashable (JObject kvs) = False"
| "hashable _ = True"

section \<open>The outside world\<close>

text \<open>
  What the handler reads from its surroundings and the library calls whose results the
  code does not determine, as one record passed to every function: the two environment
  variables, \<^verbatim>\<open>json.loads\<close> and \<^verbatim>\<open>json.dumps\<close>, the formatting of a value inside an
  f-string, the HTTP call, the clock, and the storage client.
\<close>

datatype loads_result =
    Loaded json
  | JSONDecodeError string  \<comment> \<open>with \<^verbatim>\<open>str(e)\<close>\<close>
  | LoadsRaised string  \<comment> \<open>any other exception of the parser, with \<^verbatim>\<open>str(e)\<close>\<close>

datatype urlopen_result =
    Response string  \<comment> \<open>\<^verbatim>\<open>response.read().decode("utf-8")\<close>\<close>
  | HTTPError "string option"
      \<comment> \<open>\<^verbatim>\<open>urllib.error.HTTPError\<close>; \<open>None\<close> when reading its body raises in turn\<close>
  | TransportError  \<comment> \<open>any other exception of \<^verbatim>\<open>urlopen\<close>, \<^verbatim>\<open>read\<close> or \<^verbatim>\<open>decode\<close>\<close>

record externals =
  env_GEMINI_API_KEY :: "string option"
  env_S3_BUCKET_NAME :: "string option"
  json_loads :: "string \<Rightarrow> loads_result"
  json_dumps :: "json \<Rightarrow> string"
  py_repr :: "json \<Rightarrow> string"
  urlopen :: "string \<Rightarrow> string \<Rightarrow> urlopen_result"  \<comment> \<open>URL and POST data\<close>
  now_strftime :: string  \<comment> \<open>\<^verbatim>\<open>datetime.now().strftime("%Y%m%d_%H%M%S")\<close>\<close>
  b64decode :: "json \<Rightarrow> string option"  \<comment> \<open>\<open>None\<close>: it raises\<close>
  put_object :: "string \<Rightarrow> string \<Rightarrow> string \<Rightarrow> bool"
      \<comment> \<open>bucket, key, body; \<open>False\<close>: it raises\<close>
  generate_presigned_url :: "string \<Rightarrow> string \<Rightarrow> string option"
      \<comment> \<open>bucket, key; \<open>None\<close>: it raises\<close>

text \<open>\<^verbatim>\<open>f"{v}"\<close>: a string is inserted as it is, any other value as its \<^verbatim>\<open>repr\<close>.\<close>

definition format_value :: "externals \<Rightarrow> json \<Rightarrow> string" where
  "format_value ext v = (case v of JString s \<Rightarrow> s | _ \<Rightarrow> py_repr ext v)"

text \<open>
  \<^verbatim>\<open>not v\<close> for the result \<open>v\<close> of \<^verbatim>\<open>os.environ.get\<close>: the variable is unset or empty.
\<close>

definition env_missing :: "string option \<Rightarrow> bool" where
  "env_missing v = (case v of None \<Rightarrow> True | Some s \<Rightarrow> s = [])"

text \<open>Sequencing of steps that may raise: the first exception ends the sequence.\<close>

definition and_then :: "'e + 'a \<Rightarrow> ('a \<Rightarrow> 'e + 'b) \<Rightarrow> 'e + 'b" where
  "and_then r f = (case r of Inl e \<Rightarrow> Inl e | Inr x \<Rightarrow> f x)"

section \<open>Response envelopes\<close>

record response =
  statusCode :: int
  headers :: "(string \<times> string) list"
  body :: string

definition cors_headers :: "(string \<times> string) list" where
  "cors_headers =
     [(''Content-Type'', ''application/json''),
      (''Access-Control-Allow-Origin'', ''*''),
      (''Access-Control-Allow-Headers'', ''Content-Type,x-api-key,Authorization''),
      (''Access-Control-Allow-Methods'', ''POST,OPTIONS'')]"

definition error_response :: "externals \<Rightarrow> string \<Rightarrow> int \<Rightarrow> response" where
  "error_response ext message status_code =
     \<lparr>statusCode = status_code,
      headers = cors_headers,
      body = json_dumps ext (JObject [(''success'', JBool False), (''error'', JString message)])\<rparr>"

section \<open>Normalising the invocation (lines 17 to 85 of the handler)\<close>

text \<open>
  A stage of the handler either goes on with a value or leaves the handler with
  \<^verbatim>\<open>error_response(message, status)\<close>: the pair on the left. An exception that reaches
  the handler's \<^verbatim>\<open>except Exception\<close> leaves it with \<^verbatim>\<open>error_response(str(e), 500)\<close>.
\<close>

type_synonym failure = "string \<times> int"

text \<open>
  Lines 23 to 58: the body is taken from the event. With a \<^verbatim>\<open>body\<close> field, a string is
  parsed and a dict is used as it is; without one, the event itself is the body, whether
  it has an \<^verbatim>\<open>imageData\<close> field (case 2) or not (case 3).
\<close>

definition resolve_body :: "externals \<Rightarrow> json \<Rightarrow> failure + json" where
  "resolve_body ext event =
     (case event of
        JObject kvs \<Rightarrow>
          (case map_of kvs ''body'' of
             Some body_content \<Rightarrow>
               (case body_content of
                  JString s \<Rightarrow>
                    (case json_loads ext s of
                       Loaded v \<Rightarrow> Inr v
                     | JSONDecodeError msg \<Rightarrow> Inl (''Invalid JSON: '' @ msg, 400)
                     | LoadsRaised msg \<Rightarrow> Inl (msg, 500))
                | JObject b \<Rightarrow> Inr body_content
                | _ \<Rightarrow> Inl (''Invalid body format'', 400))
           | None \<Rightarrow>
               (if map_of kvs ''imageData'' \<noteq> None then Inr event else Inr event))
      | _ \<Rightarrow> Inl (''Invalid event format'', 400))"

text \<open>Lines 61 to 67: the body must be there and be a dict.\<close>

definition validate_body :: "json \<Rightarrow> failure + (string \<times> json) list" where
  "validate_body b =
     (case b of
        JNull \<Rightarrow> Inl (''No request body'', 400)
      | JObject kvs \<Rightarrow> Inr kvs
      | _ \<Rightarrow> Inl (''Body must be an object'', 400))"

text \<open>
  Lines 72 and 73: \<^verbatim>\<open>body.get("imageData")\<close> and \<^verbatim>\<open>body.get("style", "realistic")\<close>.
\<close>

definition get_image_data :: "(string \<times> json) list \<Rightarrow> json" where
  "get_image_data kvs = (case map_of kvs ''imageData'' of None \<Rightarrow> JNull | Some v \<Rightarrow> v)"

definition get_style :: "(string \<times> json) list \<Rightarrow> json" where
  "get_style kvs = (case map_of kvs ''style'' of None \<Rightarrow> JString ''realistic'' | Some v \<Rightarrow> v)"

text \<open>
  Line 77 prints \<^verbatim>\<open>len(image_data) if image_data else 0\<close>: for a truthy value without a
  length (a number, \<^verbatim>\<open>True\<close>) the \<^verbatim>\<open>TypeError\<close> reaches the handler's \<^verbatim>\<open>except\<close>.
\<close>

definition log_image_data :: "json \<Rightarrow> failure + unit" where
  "log_image_data image_data =
     (if truthy image_data then
        (case py_len image_data of
           Inl e \<Rightarrow> Inl (len_error_message image_data, 500)
         | Inr n \<Rightarrow> Inr ())
      else Inr ())"

text \<open>Lines 81 to 85: the API key, read after the body has been resolved.\<close>

definition get_api_key :: "externals \<Rightarrow> failure + string" where
  "get_api_key ext =
     (case env_GEMINI_API_KEY ext of
        None \<Rightarrow> Inl (''GEMINI_API_KEY not configured'', 500)
      | Some api_key \<Rightarrow>
          (if api_key = [] then Inl (''GEMINI_API_KEY not configured'', 500) else Inr api_key))"

section \<open>Validating and decoding the image (lines 88 to 114)\<close>

definition validate_image_data :: "json \<Rightarrow> failure + string" where
  "validate_image_data image_data =
     (if \<not> truthy image_data then Inl (''No image data provided'', 400)
      else (case image_data of
              JString s \<Rightarrow>
                (if length s < 10 then Inl (''imageData is too short'', 400) else Inr s)
            | _ \<Rightarrow> Inl (''imageData must be a string'', 400)))"

text \<open>
  Line 108, \<^verbatim>\<open>image_data.split(";")[0].split(":")[1]\<close>: an index out of range would be
  an \<^verbatim>\<open>IndexError\<close>.
\<close>

definition extract_mime_type :: "string \<Rightarrow> exn + string" where
  "extract_mime_type image_data =
     (case py_index (str_split CHR '';'' image_data) 0 of
        Inl e \<Rightarrow> Inl e
      | Inr front \<Rightarrow> py_index (str_split CHR '':'' front) 1)"

text \<open>
  Lines 102 to 114. The result is the working payload and the MIME type. The payload
  \<^verbatim>\<open>parts[1]\<close> is read only where \<^verbatim>\<open>len(parts) == 2\<close>.
\<close>

definition decode_image :: "string \<Rightarrow> failure + (string \<times> string)" where
  "decode_image image_data =
     (if startswith image_data ''data:image'' then
        (let parts = str_split CHR '','' image_data in
         if length parts = 2 then
           (case extract_mime_type image_data of
              Inl e \<Rightarrow> Inl (''list index out of range'', 500)
            | Inr mime_type \<Rightarrow> Inr (parts ! 1, mime_type))
         else Inl (''Invalid data URL format'', 400))
      else Inr (image_data, ''image/png''))"

text \<open>
  Lines 23 to 73 together: the canonical request, the pair of \<^verbatim>\<open>image_data\<close> and
  \<^verbatim>\<open>style\<close>. Nothing else of the body is used afterwards.
\<close>

definition canonical_request :: "externals \<Rightarrow> json \<Rightarrow> failure + (json \<times> json)" where
  "canonical_request ext event =
     and_then (resolve_body ext event) (\<lambda>b.
     and_then (validate_body b) (\<lambda>kvs.
     Inr (get_image_data kvs, get_style kvs)))"

text \<open>
  Lines 17 to 116 in their order: what the handler hands to the generation client (the
  API key, the working payload, the style and the MIME type), or the error it returns
  before.
\<close>

definition prepare :: "externals \<Rightarrow> json \<Rightarrow> failure + (string \<times> string \<times> json \<times> string)" where
  "prepare ext event =
     and_then (canonical_request ext event) (\<lambda>(image_data, style).
     and_then (log_image_data image_data) (\<lambda>u.
     and_then (get_api_key ext) (\<lambda>api_key.
     and_then (validate_image_data image_data) (\<lambda>s.
     and_then (decode_image s) (\<lambda>(sketch_data, mime_type).
     Inr (api_key, sketch_data, style, mime_type))))))"

section \<open>The generation client (\<^verbatim>\<open>generate_image_from_sketch\<close>)\<close>

definition style_prompts :: "(string \<times> string) list" where
  "style_prompts =
     [(''realistic'', ''photorealistic, highly detailed, professional photography, natural lighting, 8k quality''),
      (''anime'', ''anime style, vibrant colors, Japanese animation aesthetic, cel-shaded, manga inspired''),
      (''cartoon'', ''cartoon style, bold colors, playful illustration, animated feel, exaggerated features''),
      (''oil-painting'', ''oil painting style, classical art, textured brushstrokes, rich colors, artistic masterpiece''),
      (''watercolor'', ''watercolor painting, soft washes, delicate colors, artistic, painted on paper texture''),
      (''sketch'', ''detailed pencil sketch, hand-drawn, artistic line work, shading and hatching, graphite drawing''),
      (''3d-render'', ''3D rendered, computer graphics, smooth surfaces, professional CGI, octane render, unreal engine''),
      (''pixel-art'', ''pixel art style, retro gaming aesthetic, 8-bit or 16-bit graphics, pixelated, sprite art''),
      (''cyberpunk'', ''cyberpunk style, neon lights, futuristic, sci-fi aesthetic, dark with bright accents, technological''),
      (''fantasy'', ''fantasy art style, magical atmosphere, ethereal, epic illustration, mystical and enchanting'')]"

text \<open>
  Line 173, \<^verbatim>\<open>style_prompts.get(style, "high quality artistic style")\<close>. The style is
  whatever the body held: hashing a list or a dict raises \<^verbatim>\<open>TypeError\<close>; a hashable value
  that is not a string equals none of the keys.
\<close>

definition style_desc :: "json \<Rightarrow> exn + string" where
  "style_desc style =
     (if \<not> hashable style then Inl TypeError
      else (case style of
              JString s \<Rightarrow>
                (case map_of style_prompts s of
                   None \<Rightarrow> Inr ''high quality artistic style''
                 | Some d \<Rightarrow> Inr d)
            | _ \<Rightarrow> Inr ''high quality artistic style''))"

definition full_prompt :: "string \<Rightarrow> string" where
  "full_prompt desc =
     ''Transform this sketch into a beautiful image, '' @ desc @
     '', masterpiece quality, professional artwork''"

definition api_url :: "string \<Rightarrow> string" where
  "api_url api_key =
     ''https://generativelanguage.googleapis.com/v1beta/models/gemini-2.5-flash-image-preview:generateContent?key='' @ api_key"

definition safety_setting :: "string \<Rightarrow> json" where
  "safety_setting category =
     JObject [(''category'', JString category), (''threshold'', JString ''BLOCK_MEDIUM_AND_ABOVE'')]"

definition request_payload :: "string \<Rightarrow> string \<Rightarrow> string \<Rightarrow> json" where
  "request_payload prompt mime_type sketch_data =
     JObject
      [(''contents'',
          JArray [JObject
            [(''role'', JString ''user''),
             (''parts'',
                JArray [JObject [(''text'', JString prompt)],
                        JObject [(''inlineData'',
                           JObject [(''mimeType'', JString mime_type),
                                    (''data'', JString sketch_data)])]])]]),
       (''generationConfig'',
          JObject [(''responseModalities'', JArray [JString ''TEXT'', JString ''IMAGE''])]),
       (''safetySettings'',
          JArray [safety_setting ''HARM_CATEGORY_SEXUALLY_EXPLICIT'',
                  safety_setting ''HARM_CATEGORY_HATE_SPEECH'',
                  safety_setting ''HARM_CATEGORY_HARASSMENT'',
                  safety_setting ''HARM_CATEGORY_DANGEROUS_CONTENT''])]"

text \<open>Line 225: \<^verbatim>\<open>"candidates" in data and len(data["candidates"]) > 0\<close>.\<close>

definition has_candidates :: "json \<Rightarrow> exn + bool" where
  "has_candidates data =
     and_then (py_contains ''candidates'' data) (\<lambda>present.
       if present then
         and_then (py_getitem data ''candidates'') (\<lambda>candidates.
         and_then (py_len candidates) (\<lambda>n. Inr (n > 0)))
       else Inr False)"

text \<open>Line 226: \<^verbatim>\<open>data["candidates"][0].get("content", {}).get("parts", [])\<close>.\<close>

definition candidate_parts :: "json \<Rightarrow> exn + json" where
  "candidate_parts data =
     and_then (py_getitem data ''candidates'') (\<lambda>candidates.
     and_then (py_getitem0 candidates) (\<lambda>candidate.
     and_then (py_get candidate ''content'' (JObject [])) (\<lambda>content.
     py_get content ''parts'' (JArray []))))"

text \<open>
  Lines 233 and 234, the filter of the generator:
  \<^verbatim>\<open>"inlineData" in p and p["inlineData"].get("mimeType", "").startswith("image/")\<close>.
\<close>

definition is_image_part :: "json \<Rightarrow> exn + bool" where
  "is_image_part p =
     and_then (py_contains ''inlineData'' p) (\<lambda>present.
       if present then
         and_then (py_getitem p ''inlineData'') (\<lambda>inline_data.
         and_then (py_get inline_data ''mimeType'' (JString [])) (\<lambda>mime.
         py_startswith mime ''image/''))
       else Inr False)"

text \<open>
  Lines 229 to 237, \<^verbatim>\<open>next((p for p in parts if ...), None)\<close>: the first element that
  passes the filter; the elements after it are not looked at, and an exception of the
  filter on an element before it ends the search.
\<close>

fun first_image_part :: "json list \<Rightarrow> exn + json option" where
  "first_image_part [] = Inr None"
| "first_image_part (p # ps) =
     and_then (is_image_part p) (\<lambda>ok. if ok then Inr (Some p) else first_image_part ps)"

text \<open>
  Lines 225 to 247: the image the reply holds, \<open>None\<close> where the code reaches
  \<^verbatim>\<open>return None, full_prompt\<close>, an exception where one is raised on the way.
\<close>

definition extract_image :: "json \<Rightarrow> exn + json option" where
  "extract_image data =
     and_then (has_candidates data) (\<lambda>some.
       if some then
         and_then (candidate_parts data) (\<lambda>parts.
         and_then (py_iter parts) (\<lambda>ps.
         and_then (first_image_part ps) (\<lambda>found.
           case found of
             None \<Rightarrow> Inr None
           | Some image_part \<Rightarrow>
               if truthy image_part then
                 and_then (py_getitem image_part ''inlineData'') (\<lambda>inline_data.
                 and_then (py_get inline_data ''data'' JNull) (\<lambda>image_base64.
                   if truthy image_base64 then
                     and_then (py_len image_base64) (\<lambda>n. Inr (Some image_base64))
                   else Inr None))
               else Inr None)))
       else Inr None)"

text \<open>
  Lines 176 to 252, with the prompt built: the request is sent and the reply read. An
  \<^verbatim>\<open>HTTPError\<close> is caught at line 249 and gives \<^verbatim>\<open>(None, full_prompt)\<close>; every other
  exception is caught at line 254 and gives \<^verbatim>\<open>(None, "")\<close>.
\<close>

definition call_api :: "externals \<Rightarrow> string \<Rightarrow> string \<Rightarrow> string \<Rightarrow> string \<Rightarrow> json option \<times> string" where
  "call_api ext api_key sketch_data mime_type prompt =
     (case urlopen ext (api_url api_key) (json_dumps ext (request_payload prompt mime_type sketch_data)) of
        Response response_body \<Rightarrow>
          (case json_loads ext response_body of
             Loaded data \<Rightarrow>
               (case extract_image data of
                  Inl e \<Rightarrow> (None, [])
                | Inr None \<Rightarrow> (None, prompt)
                | Inr (Some image_base64) \<Rightarrow> (Some image_base64, prompt))
           | _ \<Rightarrow> (None, []))
      | HTTPError (Some error_body) \<Rightarrow> (None, prompt)
      | HTTPError None \<Rightarrow> (None, [])
      | TransportError \<Rightarrow> (None, []))"

definition generate_image_from_sketch ::
  "externals \<Rightarrow> string \<Rightarrow> string \<Rightarrow> json \<Rightarrow> string \<Rightarrow> json option \<times> string" where
  "generate_image_from_sketch ext api_key sketch_data style mime_type =
     (case style_desc style of
        Inl e \<Rightarrow> (None, [])
      | Inr desc \<Rightarrow> call_api ext api_key sketch_data mime_type (full_prompt desc))"

section \<open>The publisher (\<^verbatim>\<open>upload_to_s3\<close>)\<close>

text \<open>
  The result is the pre-signed URL, or \<open>None\<close> for Python's \<^verbatim>\<open>None\<close>: with no bucket
  name, and after any exception of the decoding, the upload or the signing.
\<close>

definition upload_to_s3 :: "externals \<Rightarrow> json \<Rightarrow> json \<Rightarrow> string option" where
  "upload_to_s3 ext image_base64 style =
     (case env_S3_BUCKET_NAME ext of
        None \<Rightarrow> None
      | Some bucket_name \<Rightarrow>
          if bucket_name = [] then None
          else
            (let filename = ''generated-images/drawing_'' @ now_strftime ext @ ''_'' @
                            format_value ext style @ ''.png''
             in case b64decode ext image_base64 of
                  None \<Rightarrow> None
                | Some image_bytes \<Rightarrow>
                    if put_object ext bucket_name filename image_bytes
                    then generate_presigned_url ext bucket_name filename
                    else None))"

section \<open>The handler (\<^verbatim>\<open>lambda_handler\<close>)\<close>

definition success_response :: "externals \<Rightarrow> string \<Rightarrow> json \<Rightarrow> string option \<Rightarrow> json \<Rightarrow> response" where
  "success_response ext prompt_used generated_image_base64 s3_url style =
     \<lparr>statusCode = 200,
      headers = cors_headers,
      body = json_dumps ext (JObject
        [(''success'', JBool True),
         (''data'', JObject
            [(''prompt'', JString prompt_used),
             (''imageBase64'',
                JString (''data:image/png;base64,'' @ format_value ext generated_image_base64)),
             (''s3Url'', (case s3_url of None \<Rightarrow> JNull | Some u \<Rightarrow> JString u)),
             (''style'', style)])])\<rparr>"

text \<open>
  Lines 120 to 149: \<^verbatim>\<open>if not generated_image_base64\<close> covers \<^verbatim>\<open>None\<close> and every
  falsy value.
\<close>

definition respond :: "externals \<Rightarrow> json \<Rightarrow> json option \<times> string \<Rightarrow> response" where
  "respond ext style result =
     (case result of (generated_image_base64, prompt_used) \<Rightarrow>
        (case generated_image_base64 of
           None \<Rightarrow> error_response ext ''Failed to generate image'' 500
         | Some g \<Rightarrow>
             if \<not> truthy g then error_response ext ''Failed to generate image'' 500
             else success_response ext prompt_used g (upload_to_s3 ext g style) style))"

definition lambda_handler :: "externals \<Rightarrow> json \<Rightarrow> response" where
  "lambda_handler ext event =
     (case prepare ext event of
        Inl (message, status_code) \<Rightarrow> error_response ext message status_code
      | Inr (api_key, image_data, style, mime_type) \<Rightarrow>
          respond ext style (generate_image_from_sketch ext api_key image_data style mime_type))"

section \<open>The reply of the generation API, in the specification's words\<close>

text \<open>
  The specification speaks of the candidates of a reply, of the parts of the first
  candidate, and of a part with a MIME type beginning with \<^verbatim>\<open>image/\<close> and non-empty
  inline data. These three definitions follow those words, for a reply of any shape;
  they are used to state properties of \<open>extract_image\<close>, not to compute it.
\<close>

definition reply_candidates :: "json \<Rightarrow> json list" where
  "reply_candidates data =
     (case data of
        JObject kvs \<Rightarrow> (case map_of kvs ''candidates'' of Some (JArray cs) \<Rightarrow> cs | _ \<Rightarrow> [])
      | _ \<Rightarrow> [])"

definition first_candidate_parts :: "json \<Rightarrow> json list" where
  "first_candidate_parts data =
     (case reply_candidates data of
        JObject c # _ \<Rightarrow>
          (case map_of c ''content'' of
             Some (JObject content) \<Rightarrow>
               (case map_of content ''parts'' of Some (JArray ps) \<Rightarrow> ps | _ \<Rightarrow> [])
           | _ \<Rightarrow> [])
      | _ \<Rightarrow> [])"

definition usable_image_part :: "json \<Rightarrow> bool" where
  "usable_image_part p =
     (case p of
        JObject kvs \<Rightarrow>
          (case map_of kvs ''inlineData'' of
             Some (JObject inline_data) \<Rightarrow>
               (case map_of inline_data ''mimeType'' of
                  Some (JString mime) \<Rightarrow> startswith mime ''image/''
                | _ \<Rightarrow> False) \<and>
               (case map_of inline_data ''data'' of
                  Some image_base64 \<Rightarrow> truthy image_base64
                | None \<Rightarrow> False)
           | _ \<Rightarrow> False)
      | _ \<Rightarrow> False)"

section \<open>A sample deployment\<close>

text \<open>
  Concrete surroundings on which the theorems below are exercised: a small serializer
  in the place of \<^verbatim>\<open>json.dumps\<close> (no escapes, floats not printed), a generation API
  that answers every request with one text part and one PNG part, and a storage client
  that works. The API key is set and the bucket name is not.
\<close>

fun digits :: "nat \<Rightarrow> string" where
  "digits n =
     (if n < 10 then [char_of (48 + n)] else digits (n div 10) @ [char_of (48 + n mod 10)])"

definition quoted :: "string \<Rightarrow> string" where
  "quoted s = [CHR 0x22] @ s @ [CHR 0x22]"

fun join :: "string \<Rightarrow> string list \<Rightarrow> string" where
  "join sep [] = []"
| "join sep [x] = x"
| "join sep (x # y # ys) = x @ sep @ join sep (y # ys)"

primrec render_json :: "json \<Rightarrow> string" where
  "render_json JNull = ''null''"
| "render_json (JBool b) = (if b then ''true'' else ''false'')"
| "render_json (JInt i) = (if i < 0 then ''-'' else []) @ digits (nat \<bar>i\<bar>)"
| "render_json (JFloat f) = ''0.0''"
| "render_json (JString s) = quoted s"
| "render_json (JArray xs) = ''['' @ join '', '' (map render_json xs) @ '']''"
| "render_json (JObject kvs) =
     ''{'' @ join '', '' (map (\<lambda>kv. quoted (fst kv) @ '': '' @ snd kv)
                            (map (map_prod id render_json) kvs)) @ ''}''"

definition sample_reply :: json where
  "sample_reply =
     JObject [(''candidates'', JArray [JObject [(''content'', JObject
       [(''parts'', JArray
          [JObject [(''text'', JString ''Here is your image.'')],
           JObject [(''inlineData'', JObject [(''mimeType'', JString ''image/png''),
                                              (''data'', JString ''R0VORVJBVEVE'')])]])])]])]"

definition empty_reply :: json where
  "empty_reply =
     JObject [(''candidates'', JArray [JObject [(''content'', JObject
       [(''parts'', JArray [JObject [(''text'', JString ''I cannot draw this.'')]])])]])]"

definition sample_content :: "(string \<times> json) list" where
  "sample_content =
     [(''imageData'', JString ''data:image/jpeg;base64,QUJDREVGR0g=''),
      (''style'', JString ''impressionist'')]"

definition sample_loads :: "string \<Rightarrow> loads_result" where
  "sample_loads s =
     (if s = render_json sample_reply then Loaded sample_reply
      else if s = render_json empty_reply then Loaded empty_reply
      else if s = render_json (JObject sample_content) then Loaded (JObject sample_content)
      else JSONDecodeError ''Expecting value: line 1 column 1 (char 0)'')"

definition sample_ext :: externals where
  "sample_ext =
     \<lparr>env_GEMINI_API_KEY = Some ''test-key'',
      env_S3_BUCKET_NAME = None,
      json_loads = sample_loads,
      json_dumps = render_json,
      py_repr = render_json,
      urlopen = (\<lambda>url data. Response (render_json sample_reply)),
      now_strftime = ''20240101_120000'',
      b64decode = (\<lambda>v. case v of JString s \<Rightarrow> Some s | _ \<Rightarrow> None),
      put_object = (\<lambda>bucket key data. True),
      generate_presigned_url = (\<lambda>bucket key. Some (''https://s3.example/'' @ bucket @ ''/'' @ key))\<rparr>"

section \<open>Facts about the string operations\<close>

lemma and_then_simps [simp]:
  "and_then (Inl e) f = Inl e"
  "and_then (Inr x) f = f x"
  by (simp_all add: and_then_def)

lemma length_str_split: "length (str_split c s) = Suc (count_list s c)"
  by (induction s) (auto split: list.splits)

lemma str_split_nonempty: "str_split c s \<noteq> []"
  by (induction s) (auto split: list.splits)

lemma hd_str_split: "hd (str_split c s) = takeWhile (\<lambda>x. x \<noteq> c) s"
  by (induction s) (auto split: list.splits simp: str_split_nonempty)

lemma tl_str_split:
  "tl (str_split c s) =
     (if c \<in> set s then str_split c (tl (dropWhile (\<lambda>x. x \<noteq> c) s)) else [])"
  by (induction s) (auto split: list.splits simp: str_split_nonempty)

text \<open>The second piece of a split, where the separator occurs.\<close>

lemma str_split_second:
  assumes "c \<in> set s"
  shows "str_split c s ! Suc 0 = takeWhile (\<lambda>x. x \<noteq> c) (tl (dropWhile (\<lambda>x. x \<noteq> c) s))"
proof -
  obtain x xs where x: "str_split c s = x # xs"
    using str_split_nonempty[of c s] by (cases "str_split c s") auto
  have xs: "xs = str_split c (tl (dropWhile (\<lambda>x. x \<noteq> c) s))"
    using tl_str_split[of c s] assms x by simp
  then have "xs \<noteq> []" by (simp add: str_split_nonempty)
  then have "str_split c s ! Suc 0 = hd xs" using x by (cases xs) auto
  then show ?thesis by (simp add: xs hd_str_split)
qed

lemma separator_used_up:
  "count_list s c = Suc 0 \<Longrightarrow> c \<notin> set (tl (dropWhile (\<lambda>x. x \<noteq> c) s))"
proof (induction s)
  case Nil
  then show ?case by simp
next
  case (Cons a s)
  show ?case
  proof (cases "a = c")
    case True
    with Cons.prems have "count_list s c = 0" by simp
    then show ?thesis using True by (simp add: count_list_0_iff)
  next
    case False
    with Cons show ?thesis by simp
  qed
qed

text \<open>With one separator, the second piece is all that follows it.\<close>

lemma str_split_one_separator:
  assumes "count_list s c = Suc 0"
  shows "str_split c s ! Suc 0 = tl (dropWhile (\<lambda>x. x \<noteq> c) s)"
proof -
  have "count_list s c \<noteq> 0" using assms by simp
  then have in_s: "c \<in> set s" by (simp add: count_list_0_iff)
  have "\<forall>x \<in> set (tl (dropWhile (\<lambda>x. x \<noteq> c) s)). x \<noteq> c"
    using separator_used_up[OF assms] by blast
  then have "takeWhile (\<lambda>x. x \<noteq> c) (tl (dropWhile (\<lambda>x. x \<noteq> c) s)) =
      tl (dropWhile (\<lambda>x. x \<noteq> c) s)"
    by (rule takeWhile_eq_all_conv[THEN iffD2])
  then show ?thesis unfolding str_split_second[OF in_s] .
qed

lemma startswith_append: "startswith s p \<Longrightarrow> s = p @ drop (length p) s"
  unfolding startswith_def by (metis append_take_drop_id)

lemma takeWhile_stops:
  assumes "\<forall>x \<in> set t. P x" and "\<not> P y"
  shows "takeWhile P (t @ y # ys) = t"
  using assms by (simp add: takeWhile_append2)

lemma takeWhile_twice:
  "takeWhile (\<lambda>x. x \<noteq> a) (takeWhile (\<lambda>x. x \<noteq> b) xs) =
     takeWhile (\<lambda>c. c \<noteq> a \<and> c \<noteq> b) xs"
  by (induction xs) auto

text \<open>
  After the prefix \<^verbatim>\<open>data:image\<close> the two indexings of line 108 are in range, and the
  MIME type is what stands between the first colon and the next colon or semicolon.
\<close>

lemma extract_mime_type_prefixed:
  assumes "startswith s ''data:image''"
  shows "extract_mime_type s =
    Inr (takeWhile (\<lambda>c. c \<noteq> CHR '':'' \<and> c \<noteq> CHR '';'') (drop 5 s))"
proof -
  define front where "front = hd (str_split CHR '';'' s)"
  define rest where "rest = takeWhile (\<lambda>x. x \<noteq> CHR '';'') (drop 5 s)"
  obtain r where s: "s = ''data:image'' @ r" using startswith_append[OF assms] by blast
  have front: "front = ''data:'' @ rest"
    unfolding front_def rest_def hd_str_split by (simp add: s)
  have colon: "CHR '':'' \<in> set front" unfolding front by simp
  have "tl (dropWhile (\<lambda>x. x \<noteq> CHR '':'') front) = rest"
    unfolding front by simp
  then have second: "str_split CHR '':'' front ! Suc 0 =
      takeWhile (\<lambda>c. c \<noteq> CHR '':'' \<and> c \<noteq> CHR '';'') (drop 5 s)"
    unfolding str_split_second[OF colon] by (simp add: rest_def takeWhile_twice)
  have "count_list front CHR '':'' \<noteq> 0" using colon by (simp add: count_list_0_iff)
  then have len: "Suc 0 < length (str_split CHR '':'' front)"
    unfolding length_str_split by simp
  have "py_index (str_split CHR '';'' s) 0 = Inr front"
    using str_split_nonempty[of "CHR '';''" s]
    by (simp add: py_index_def front_def hd_conv_nth)
  then show ?thesis
    using len second by (simp add: extract_mime_type_def py_index_def)
qed

lemma decode_image_prefixed:
  assumes "startswith s ''data:image''"
  shows "decode_image s =
    (if count_list s CHR '','' = Suc 0
     then Inr (tl (dropWhile (\<lambda>c. c \<noteq> CHR '','') s),
               takeWhile (\<lambda>c. c \<noteq> CHR '':'' \<and> c \<noteq> CHR '';'') (drop 5 s))
     else Inl (''Invalid data URL format'', 400))"
  using assms
  by (simp add: decode_image_def Let_def length_str_split extract_mime_type_prefixed
      str_split_one_separator)

lemma decode_image_failure:
  assumes "decode_image s = Inl f"
  shows "f = (''Invalid data URL format'', 400)"
proof (cases "startswith s ''data:image''")
  case True
  with assms show ?thesis by (simp add: decode_image_prefixed split: if_splits)
next
  case False
  with assms show ?thesis by (simp add: decode_image_def)
qed

section \<open>Facts about the stages of the handler\<close>

declare digits.simps [simp del]

lemmas request_defs = lambda_handler_def prepare_def canonical_request_def resolve_body_def
  validate_body_def get_image_data_def get_style_def log_image_data_def get_api_key_def
  validate_image_data_def decode_image_def extract_mime_type_def py_index_def startswith_def
  env_missing_def error_response_def len_error_message_def

lemmas sample_defs = sample_ext_def sample_loads_def sample_content_def sample_reply_def
  empty_reply_def quoted_def

lemma get_api_key_missing:
  "env_missing (env_GEMINI_API_KEY ext) \<Longrightarrow>
   get_api_key ext = Inl (''GEMINI_API_KEY not configured'', 500)"
  by (simp add: env_missing_def get_api_key_def split: option.splits)

lemma get_api_key_present:
  "\<not> env_missing (env_GEMINI_API_KEY ext) \<Longrightarrow>
   get_api_key ext = Inr (the (env_GEMINI_API_KEY ext))"
  by (simp add: env_missing_def get_api_key_def split: option.splits)

lemma canonical_request_resolved:
  "resolve_body ext event = Inr (JObject kvs) \<Longrightarrow>
   canonical_request ext event = Inr (get_image_data kvs, get_style kvs)"
  by (simp add: canonical_request_def validate_body_def)

text \<open>The event reaches the rest of the handler through the canonical request only.\<close>

lemma lambda_handler_canonical:
  "canonical_request ext event = canonical_request ext event' \<Longrightarrow>
   lambda_handler ext event = lambda_handler ext event'"
  by (simp add: lambda_handler_def prepare_def)

text \<open>Every error that the handler returns before the generation has status 400 or 500.\<close>

lemma and_then_eq_Inl:
  "(and_then r f = Inl e) = (r = Inl e \<or> (\<exists>x. r = Inr x \<and> f x = Inl e))"
  by (cases r) simp_all

lemma resolve_body_status:
  "resolve_body ext event = Inl (m, c) \<Longrightarrow> c = 400 \<or> c = 500"
  by (auto simp: resolve_body_def split: json.splits option.splits loads_result.splits if_splits)

lemma validate_body_status: "validate_body b = Inl (m, c) \<Longrightarrow> c = 400"
  by (cases b) (auto simp: validate_body_def)

lemma log_image_data_status: "log_image_data v = Inl (m, c) \<Longrightarrow> c = 500"
  by (auto simp: log_image_data_def split: if_splits sum.splits)

lemma get_api_key_status: "get_api_key ext = Inl (m, c) \<Longrightarrow> c = 500"
  by (auto simp: get_api_key_def split: option.splits if_splits)

lemma validate_image_data_status: "validate_image_data v = Inl (m, c) \<Longrightarrow> c = 400"
  by (cases v) (auto simp: validate_image_data_def split: if_splits)

lemma prepare_failure_status:
  assumes "prepare ext event = Inl (m, c)"
  shows "c = 400 \<or> c = 500"
  using assms
  by (auto simp: prepare_def canonical_request_def and_then_eq_Inl
      dest: resolve_body_status validate_body_status log_image_data_status get_api_key_status
        validate_image_data_status decode_image_failure)

section \<open>Facts about the generation client\<close>

lemma and_then_eq_Inr: "(and_then r f = Inr y) = (\<exists>x. r = Inr x \<and> f x = Inr y)"
  by (cases r) simp_all

lemma py_get_Inr:
  "py_get v k d = Inr x \<Longrightarrow>
   \<exists>kvs. v = JObject kvs \<and> x = (case map_of kvs k of None \<Rightarrow> d | Some y \<Rightarrow> y)"
  by (cases v) (auto split: option.splits)

lemma py_getitem_Inr:
  "py_getitem v k = Inr x \<Longrightarrow> \<exists>kvs. v = JObject kvs \<and> map_of kvs k = Some x"
  by (cases v) (auto split: option.splits)

lemma py_startswith_True:
  "py_startswith v p = Inr True \<Longrightarrow> \<exists>s. v = JString s \<and> startswith s p"
  by (cases v) auto

lemma py_getitem0_object:
  assumes "py_getitem0 c = Inr (JObject k)"
  shows "\<exists>cs. c = JArray (JObject k # cs)"
proof (cases c)
  case (JArray xs)
  with assms show ?thesis by (cases xs) (auto simp: py_index_def)
next
  case (JString s)
  with assms show ?thesis by (cases s) auto
qed (use assms in auto)

text \<open>What passes the filter of the generator is a dict with an image MIME type.\<close>

lemma is_image_part_True:
  assumes "is_image_part p = Inr True"
  shows "\<exists>kvs d m. p = JObject kvs \<and> map_of kvs ''inlineData'' = Some (JObject d) \<and>
           map_of d ''mimeType'' = Some (JString m) \<and> startswith m ''image/''"
proof -
  from assms obtain present where
    2: "(if present then
         and_then (py_getitem p ''inlineData'') (\<lambda>inline_data.
         and_then (py_get inline_data ''mimeType'' (JString [])) (\<lambda>mime.
         py_startswith mime ''image/''))
       else Inr False) = Inr True"
    unfolding is_image_part_def and_then_eq_Inr by blast
  from 2 have present by (simp split: if_splits)
  with 2 obtain inline_data mime where 3: "py_getitem p ''inlineData'' = Inr inline_data"
    and 4: "py_get inline_data ''mimeType'' (JString []) = Inr mime"
    and 5: "py_startswith mime ''image/'' = Inr True"
    by (auto simp: and_then_eq_Inr)
  from 3 obtain kvs where p: "p = JObject kvs" "map_of kvs ''inlineData'' = Some inline_data"
    using py_getitem_Inr by blast
  from 4 obtain d where d: "inline_data = JObject d"
    "mime = (case map_of d ''mimeType'' of None \<Rightarrow> JString [] | Some y \<Rightarrow> y)"
    using py_get_Inr by blast
  from 5 obtain m where m: "mime = JString m" "startswith m ''image/''"
    using py_startswith_True by blast
  have "map_of d ''mimeType'' = Some (JString m)"
    using d(2) m by (cases "map_of d ''mimeType''") (auto simp: startswith_def)
  with p d m show ?thesis by blast
qed

lemma first_image_part_Some:
  "first_image_part ps = Inr (Some p) \<Longrightarrow> p \<in> set ps \<and> is_image_part p = Inr True"
proof (induction ps)
  case Nil
  then show ?case by simp
next
  case (Cons a ps)
  from Cons.prems obtain ok where ok: "is_image_part a = Inr ok"
    and r: "(if ok then Inr (Some a) else first_image_part ps) = Inr (Some p)"
    unfolding first_image_part.simps and_then_eq_Inr by blast
  show ?case
  proof (cases ok)
    case True
    with ok r show ?thesis by simp
  next
    case False
    with r Cons.IH show ?thesis by simp
  qed
qed

lemma has_candidates_True:
  assumes "has_candidates data = Inr True"
  shows "\<exists>kvs c n. data = JObject kvs \<and> map_of kvs ''candidates'' = Some c \<and>
           py_len c = Inr n \<and> 0 < n"
proof -
  from assms obtain present where
    2: "(if present then
         and_then (py_getitem data ''candidates'') (\<lambda>candidates.
         and_then (py_len candidates) (\<lambda>n. Inr (n > 0)))
       else Inr False) = Inr True"
    unfolding has_candidates_def and_then_eq_Inr by blast
  then have present by (simp split: if_splits)
  with 2 obtain c n where "py_getitem data ''candidates'' = Inr c" "py_len c = Inr n" "0 < n"
    by (auto simp: and_then_eq_Inr)
  then show ?thesis using py_getitem_Inr by blast
qed

lemma candidate_parts_Inr:
  assumes "candidate_parts data = Inr parts" and "data = JObject kvs"
    and "map_of kvs ''candidates'' = Some c"
  shows "\<exists>cand cs ckvs content. c = JArray (cand # cs) \<and> cand = JObject ckvs \<and>
     (case map_of ckvs ''content'' of None \<Rightarrow> JObject [] | Some y \<Rightarrow> y) = JObject content \<and>
     parts = (case map_of content ''parts'' of None \<Rightarrow> JArray [] | Some y \<Rightarrow> y)"
proof -
  from assms obtain cand content where 1: "py_getitem0 c = Inr cand"
    and 2: "py_get cand ''content'' (JObject []) = Inr content"
    and 3: "py_get content ''parts'' (JArray []) = Inr parts"
    unfolding candidate_parts_def and_then_eq_Inr by auto
  from 2 obtain ckvs where ck: "cand = JObject ckvs"
    "content = (case map_of ckvs ''content'' of None \<Rightarrow> JObject [] | Some y \<Rightarrow> y)"
    using py_get_Inr by blast
  from 3 obtain cont where co: "content = JObject cont"
    "parts = (case map_of cont ''parts'' of None \<Rightarrow> JArray [] | Some y \<Rightarrow> y)"
    using py_get_Inr by blast
  from 1 ck(1) obtain cs where "c = JArray (cand # cs)"
    using py_getitem0_object by blast
  moreover have
    "(case map_of ckvs ''content'' of None \<Rightarrow> JObject [] | Some y \<Rightarrow> y) = JObject cont"
    using ck(2) co(1) by simp
  ultimately show ?thesis using ck(1) co(2) by blast
qed

text \<open>
  An image that the client extracts is truthy, and it is the inline data of a part of the
  first candidate that the specification calls an image part.
\<close>

lemma extract_image_Some:
  assumes "extract_image data = Inr (Some g)"
  shows "truthy g \<and> reply_candidates data \<noteq> [] \<and>
         list_ex usable_image_part (first_candidate_parts data)"
proof -
  from assms obtain some where hc: "has_candidates data = Inr some"
    and rest: "(if some then
         and_then (candidate_parts data) (\<lambda>parts.
         and_then (py_iter parts) (\<lambda>ps.
         and_then (first_image_part ps) (\<lambda>found.
           case found of
             None \<Rightarrow> Inr None
           | Some image_part \<Rightarrow>
               if truthy image_part then
                 and_then (py_getitem image_part ''inlineData'') (\<lambda>inline_data.
                 and_then (py_get inline_data ''data'' JNull) (\<lambda>image_base64.
                   if truthy image_base64 then
                     and_then (py_len image_base64) (\<lambda>n. Inr (Some image_base64))
                   else Inr None))
               else Inr None)))
       else Inr None) = Inr (Some g)"
    unfolding extract_image_def and_then_eq_Inr by blast
  from rest have some by (simp split: if_splits)
  with rest obtain parts ps found where cp: "candidate_parts data = Inr parts"
    and it: "py_iter parts = Inr ps" and fi: "first_image_part ps = Inr found"
    and fin: "(case found of
             None \<Rightarrow> Inr None
           | Some image_part \<Rightarrow>
               if truthy image_part then
                 and_then (py_getitem image_part ''inlineData'') (\<lambda>inline_data.
                 and_then (py_get inline_data ''data'' JNull) (\<lambda>image_base64.
                   if truthy image_base64 then
                     and_then (py_len image_base64) (\<lambda>n. Inr (Some image_base64))
                   else Inr None))
               else Inr None) = Inr (Some g)"
    by (auto simp: and_then_eq_Inr)
  from fin obtain p where found: "found = Some p" by (cases found) auto
  with fin obtain inline_data image_base64 where
    gi: "py_getitem p ''inlineData'' = Inr inline_data"
    and gd: "py_get inline_data ''data'' JNull = Inr image_base64"
    and tr: "(if truthy image_base64 then
                and_then (py_len image_base64) (\<lambda>n. Inr (Some image_base64))
              else Inr None) = Inr (Some g)"
    by (auto simp: and_then_eq_Inr split: if_splits)
  from tr have g: "truthy g" "image_base64 = g"
    by (auto simp: and_then_eq_Inr split: if_splits)
  from fi found have pin: "p \<in> set ps" and ip: "is_image_part p = Inr True"
    using first_image_part_Some by auto
  from ip obtain pk d m where p: "p = JObject pk" "map_of pk ''inlineData'' = Some (JObject d)"
    "map_of d ''mimeType'' = Some (JString m)" "startswith m ''image/''"
    using is_image_part_True by blast
  from gi gd p g have "map_of d ''data'' = Some g"
    by (cases "map_of d ''data''") auto
  with p g have usable: "usable_image_part p" by (simp add: usable_image_part_def)
  from hc \<open>some\<close> have "has_candidates data = Inr True" by simp
  then obtain kvs c where data: "data = JObject kvs"
    "map_of kvs ''candidates'' = Some c" using has_candidates_True by blast
  from candidate_parts_Inr[OF cp data] obtain cand cs ckvs content where
    c: "c = JArray (cand # cs)" "cand = JObject ckvs"
    "(case map_of ckvs ''content'' of None \<Rightarrow> JObject [] | Some y \<Rightarrow> y) = JObject content"
    "parts = (case map_of content ''parts'' of None \<Rightarrow> JArray [] | Some y \<Rightarrow> y)"
    by blast
  have parts: "parts = JArray ps"
    using it pin p(1) by (cases parts) auto
  have rc: "reply_candidates data = cand # cs"
    using data c by (simp add: reply_candidates_def)
  have "first_candidate_parts data = ps"
    using rc c parts pin
    by (auto simp: first_candidate_parts_def split: option.splits json.splits)
  with rc usable pin g show ?thesis by (auto simp: list_ex_iff)
qed

lemma call_api_Some:
  assumes "call_api ext api_key sketch_data mime_type p = (Some g, prompt)"
  shows "prompt = p \<and> truthy g"
proof -
  from assms obtain data where "extract_image data = Inr (Some g)" "prompt = p"
    by (auto simp: call_api_def split: urlopen_result.splits loads_result.splits sum.splits
        option.splits)
  then show ?thesis using extract_image_Some by blast
qed

lemma generate_Some:
  assumes "generate_image_from_sketch ext api_key sketch_data style mime_type = (Some g, prompt)"
  shows "truthy g"
  using assms call_api_Some
  by (auto simp: generate_image_from_sketch_def split: sum.splits)

lemma call_api_None:
  assumes "\<And>g. extract_image reply \<noteq> Inr (Some g)"
    and "\<And>url data. urlopen ext url data = Response reply_text"
    and "json_loads ext reply_text = Loaded reply"
  shows "fst (call_api ext api_key sketch_data mime_type p) = None"
  using assms by (cases "extract_image reply") (auto simp: call_api_def split: option.splits)

lemma generate_None:
  assumes "\<And>g. extract_image reply \<noteq> Inr (Some g)"
    and "\<And>url data. urlopen ext url data = Response reply_text"
    and "json_loads ext reply_text = Loaded reply"
  shows "fst (generate_image_from_sketch ext api_key sketch_data style mime_type) = None"
  using call_api_None[OF assms]
  by (simp add: generate_image_from_sketch_def split: sum.splits)

text \<open>
  An image that \<open>generate_image_from_sketch\<close> returns is what \<open>extract_image\<close> found
  in the parsed reply of the API to the request the client sent.
\<close>

lemma generated_image_from_reply:
  assumes "generate_image_from_sketch ext api_key sketch_data style mime_type = (Some g, prompt)"
  shows "\<exists>desc reply_text reply.
           style_desc style = Inr desc \<and> prompt = full_prompt desc \<and>
           urlopen ext (api_url api_key)
             (json_dumps ext (request_payload prompt mime_type sketch_data)) =
             Response reply_text \<and>
           json_loads ext reply_text = Loaded reply \<and>
           extract_image reply = Inr (Some g)"
proof -
  from assms obtain desc where d: "style_desc style = Inr desc"
    and c: "call_api ext api_key sketch_data mime_type (full_prompt desc) = (Some g, prompt)"
    by (auto simp: generate_image_from_sketch_def split: sum.splits)
  from c have p: "prompt = full_prompt desc" using call_api_Some by blast
  from c obtain reply_text reply where
    "urlopen ext (api_url api_key)
       (json_dumps ext (request_payload (full_prompt desc) mime_type sketch_data)) =
       Response reply_text"
    "json_loads ext reply_text = Loaded reply" "extract_image reply = Inr (Some g)"
    by (auto simp: call_api_def split: urlopen_result.splits loads_result.splits sum.splits
        option.splits)
  with d p show ?thesis by blast
qed

text \<open>With an image from the client, the handler answers with the success envelope.\<close>

lemma lambda_handler_success:
  assumes "prepare ext event = Inr (api_key, sketch_data, style, mime_type)"
    and "generate_image_from_sketch ext api_key sketch_data style mime_type = (Some g, prompt)"
  shows "lambda_handler ext event =
         success_response ext prompt g (upload_to_s3 ext g style) style"
  using assms generate_Some[OF assms(2)] by (simp add: lambda_handler_def respond_def)

text \<open>
  Conversely, a response with status 200 comes from a request that reached the client
  and for which the client returned an image.
\<close>

lemma success_only_with_image:
  assumes "statusCode (lambda_handler ext event) = 200"
  shows "\<exists>api_key sketch_data style mime_type g prompt.
           prepare ext event = Inr (api_key, sketch_data, style, mime_type) \<and>
           generate_image_from_sketch ext api_key sketch_data style mime_type = (Some g, prompt)"
proof (cases "prepare ext event")
  case (Inl f)
  obtain m c where "f = (m, c)" by (cases f)
  with Inl assms prepare_failure_status[of ext event m c] show ?thesis
    by (auto simp: lambda_handler_def error_response_def)
next
  case (Inr r)
  obtain api_key sketch_data style mime_type where r: "r = (api_key, sketch_data, style, mime_type)"
    by (cases r)
  obtain g prompt where g: "generate_image_from_sketch ext api_key sketch_data style mime_type = (g, prompt)"
    by (cases "generate_image_from_sketch ext api_key sketch_data style mime_type")
  from assms Inr r g have "g \<noteq> None"
    by (cases g) (auto simp: lambda_handler_def respond_def error_response_def)
  with Inr r g show ?thesis by auto
qed

text \<open>A style that cannot be hashed ends the client before the API is called.\<close>

lemma unhashable_style_fails:
  "\<not> hashable style \<Longrightarrow>
   generate_image_from_sketch ext api_key sketch_data style mime_type = (None, [])"
  by (simp add: generate_image_from_sketch_def style_desc_def)

lemma style_names:
  "fst ` set style_prompts =
     {''realistic'', ''anime'', ''cartoon'', ''oil-painting'', ''watercolor'',
      ''sketch'', ''3d-render'', ''pixel-art'', ''cyberpunk'', ''fantasy''}"
  by (simp add: style_prompts_def)

subsection \<open>The sample deployment at work\<close>

lemma sample_extract: "extract_image sample_reply = Inr (Some (JString ''R0VORVJBVEVE''))"
  by (simp add: extract_image_def has_candidates_def candidate_parts_def is_image_part_def
      py_index_def startswith_def sample_reply_def)

lemma generate_on_sample_reply:
  assumes "\<And>url data. urlopen ext url data = Response (render_json sample_reply)"
    and "json_loads ext (render_json sample_reply) = Loaded sample_reply"
  shows "generate_image_from_sketch ext api_key sketch_data (JString ''impressionist'') mime_type =
     (Some (JString ''R0VORVJBVEVE''),
      ''Transform this sketch into a beautiful image, high quality artistic style, masterpiece quality, professional artwork'')"
  using assms
  by (simp add: generate_image_from_sketch_def style_desc_def style_prompts_def call_api_def
      full_prompt_def sample_extract)

lemma sample_generate:
  "generate_image_from_sketch sample_ext api_key sketch_data (JString ''impressionist'') mime_type =
     (Some (JString ''R0VORVJBVEVE''),
      ''Transform this sketch into a beautiful image, high quality artistic style, masterpiece quality, professional artwork'')"
  by (rule generate_on_sample_reply) (simp_all add: sample_ext_def sample_loads_def)


section \<open>The configuration check and the validation of the request\<close>

text \<open>
  C1, as the code has it. For every invocation made while \<^verbatim>\<open>GEMINI_API_KEY\<close> is unset
  or empty and whose envelope normalises to a canonical request, the handler returns the
  error envelope with status 500 and the message \<^verbatim>\<open>GEMINI_API_KEY not configured\<close>: the
  key is checked after the envelope has been normalised and before \<^verbatim>\<open>imageData\<close> is
  validated, so the 500 is returned whatever \<^verbatim>\<open>imageData\<close> and the style are. This is
  stated where the logging of the length of \<^verbatim>\<open>imageData\<close> at line 77 does not raise,
  that is for an \<^verbatim>\<open>imageData\<close> that is absent, falsy, a string, a list or a dict.
\<close>

theorem missing_key_checked_after_envelope:
  assumes "env_missing (env_GEMINI_API_KEY ext)"
    and "canonical_request ext event = Inr (image_data, style)"
    and "log_image_data image_data = Inr ()"
  shows "lambda_handler ext event = error_response ext ''GEMINI_API_KEY not configured'' 500"
  using assms
  by (simp add: lambda_handler_def prepare_def get_api_key_missing)

theorem missing_key_checked_after_envelope_witness:
  "env_missing (env_GEMINI_API_KEY (sample_ext\<lparr>env_GEMINI_API_KEY := None\<rparr>)) \<and>
   canonical_request (sample_ext\<lparr>env_GEMINI_API_KEY := None\<rparr>)
     (JObject [(''imageData'', JString ''short''), (''style'', JString ''anime'')]) =
     Inr (JString ''short'', JString ''anime'') \<and>
   log_image_data (JString ''short'') = Inr () \<and>
   lambda_handler (sample_ext\<lparr>env_GEMINI_API_KEY := None\<rparr>)
     (JObject [(''imageData'', JString ''short''), (''style'', JString ''anime'')]) =
   error_response (sample_ext\<lparr>env_GEMINI_API_KEY := None\<rparr>)
     ''GEMINI_API_KEY not configured'' 500"
  using missing_key_checked_after_envelope[where ext = "sample_ext\<lparr>env_GEMINI_API_KEY := None\<rparr>"
    and event = "JObject [(''imageData'', JString ''short''), (''style'', JString ''anime'')]"
    and image_data = "JString ''short''" and style = "JString ''anime''"]
  by (simp add: request_defs sample_defs)

text \<open>
  C1 as stated fails: with no key, an envelope whose \<^verbatim>\<open>body\<close> field is a number is
  answered with 400 and \<^verbatim>\<open>Invalid body format\<close>, not with 500.
\<close>

theorem malformed_envelope_counterexample:
  "env_missing (env_GEMINI_API_KEY (sample_ext\<lparr>env_GEMINI_API_KEY := None\<rparr>)) \<and>
   lambda_handler (sample_ext\<lparr>env_GEMINI_API_KEY := None\<rparr>) (JObject [(''body'', JInt 5)]) =
     error_response (sample_ext\<lparr>env_GEMINI_API_KEY := None\<rparr>) ''Invalid body format'' 400 \<and>
   statusCode (lambda_handler (sample_ext\<lparr>env_GEMINI_API_KEY := None\<rparr>)
     (JObject [(''body'', JInt 5)])) \<noteq> 500"
  by (simp add: request_defs sample_defs)

text \<open>
  C4, as the code has it. With the API key configured, every request whose body is an
  object with an \<^verbatim>\<open>imageData\<close> field that is a non-empty string of fewer than 10
  characters is rejected with 400 and \<^verbatim>\<open>imageData is too short\<close>, whatever the other
  fields of the body, the style among them.
\<close>

theorem short_image_data_rejected:
  assumes "\<not> env_missing (env_GEMINI_API_KEY ext)"
    and "resolve_body ext event = Inr (JObject kvs)"
    and "map_of kvs ''imageData'' = Some (JString s)"
    and "s \<noteq> []" and "length s < 10"
  shows "lambda_handler ext event = error_response ext ''imageData is too short'' 400"
  using assms
  by (simp add: lambda_handler_def prepare_def canonical_request_resolved get_api_key_present
      get_image_data_def log_image_data_def validate_image_data_def)

theorem short_image_data_rejected_witness:
  "lambda_handler sample_ext
     (JObject [(''imageData'', JString ''QUJD''), (''style'', JString ''anime'')]) =
   error_response sample_ext ''imageData is too short'' 400"
  using short_image_data_rejected[of sample_ext
    "JObject [(''imageData'', JString ''QUJD''), (''style'', JString ''anime'')]"
    "[(''imageData'', JString ''QUJD''), (''style'', JString ''anime'')]" "''QUJD''"]
  by (simp add: request_defs sample_defs)

text \<open>
  C4 as stated fails: the empty string has fewer than 10 characters, and with the API
  key configured it is rejected with \<^verbatim>\<open>No image data provided\<close>, the emptiness check
  coming first.
\<close>

theorem empty_string_counterexample:
  "length ([] :: string) < 10 \<and>
   lambda_handler sample_ext
     (JObject [(''imageData'', JString []), (''style'', JString ''anime'')]) =
     error_response sample_ext ''No image data provided'' 400 \<and>
   lambda_handler sample_ext
     (JObject [(''imageData'', JString []), (''style'', JString ''anime'')]) \<noteq>
     error_response sample_ext ''imageData is too short'' 400"
  by (simp add: request_defs sample_defs)

text \<open>
  C10. With the API key configured and a body that is an object with an \<^verbatim>\<open>imageData\<close>
  field: a falsy value of the field (\<^verbatim>\<open>0\<close>, \<^verbatim>\<open>false\<close>, an empty list, \<^verbatim>\<open>null\<close>, and the
  empty string too) is answered with 400 and \<^verbatim>\<open>No image data provided\<close>, since the
  emptiness check comes before the type check; and the handler leaves with
  \<^verbatim>\<open>imageData must be a string\<close> only for a value that is truthy and not a string.
\<close>

theorem empty_check_precedes_type_check:
  assumes "\<not> env_missing (env_GEMINI_API_KEY ext)"
    and "resolve_body ext event = Inr (JObject kvs)"
    and "map_of kvs ''imageData'' = Some v"
  shows "(\<not> truthy v \<longrightarrow>
            lambda_handler ext event = error_response ext ''No image data provided'' 400) \<and>
         (prepare ext event = Inl (''imageData must be a string'', 400) \<longrightarrow>
            truthy v \<and> (\<forall>s. v \<noteq> JString s))"
proof (intro conjI impI)
  assume "\<not> truthy v"
  with assms show "lambda_handler ext event = error_response ext ''No image data provided'' 400"
    by (simp add: lambda_handler_def prepare_def canonical_request_resolved get_api_key_present
      get_image_data_def log_image_data_def validate_image_data_def)
next
  assume f: "prepare ext event = Inl (''imageData must be a string'', 400)"
  show "truthy v"
  proof (rule ccontr)
    assume "\<not> truthy v"
    with assms f show False
      by (simp add: prepare_def canonical_request_resolved get_api_key_present
        get_image_data_def log_image_data_def validate_image_data_def)
  qed
  show "\<forall>s. v \<noteq> JString s"
  proof (intro allI notI)
    fix s assume "v = JString s"
    with assms f show False
      by (cases "decode_image s")
         (auto simp: prepare_def canonical_request_resolved get_api_key_present
           get_image_data_def log_image_data_def validate_image_data_def
           dest: decode_image_failure split: if_splits)
  qed
qed

theorem empty_check_precedes_type_check_witness:
  "\<not> truthy (JInt 0) \<and>
   lambda_handler sample_ext (JObject [(''imageData'', JInt 0)]) =
     error_response sample_ext ''No image data provided'' 400 \<and>
   prepare sample_ext (JObject [(''imageData'', JArray [JInt 1])]) =
     Inl (''imageData must be a string'', 400) \<and>
   truthy (JArray [JInt 1])"
  using empty_check_precedes_type_check[of sample_ext "JObject [(''imageData'', JInt 0)]"
      "[(''imageData'', JInt 0)]" "JInt 0"]
    empty_check_precedes_type_check[of sample_ext "JObject [(''imageData'', JArray [JInt 1])]"
      "[(''imageData'', JArray [JInt 1])]" "JArray [JInt 1]"]
  by (simp add: request_defs sample_defs)

section \<open>The envelope shapes\<close>

text \<open>
  C5. Let the content be an object with no \<^verbatim>\<open>body\<close> field, as
  \<^verbatim>\<open>{imageData, style}\<close> is. An envelope whose \<^verbatim>\<open>body\<close> field is a string that
  \<^verbatim>\<open>json.loads\<close> parses to the content, an envelope whose \<^verbatim>\<open>body\<close> field is the content
  itself, and the content passed as the envelope all give the same canonical request,
  the \<^verbatim>\<open>imageData\<close> of the content with its style (\<^verbatim>\<open>realistic\<close> when it has none), and
  the handler returns the same response for all three.
\<close>

theorem envelope_shapes_agree:
  assumes "map_of content ''body'' = None"
    and "map_of wrapped_text ''body'' = Some (JString text)"
    and "json_loads ext text = Loaded (JObject content)"
    and "map_of wrapped_object ''body'' = Some (JObject content)"
  shows "canonical_request ext (JObject wrapped_text) =
           Inr (get_image_data content, get_style content) \<and>
         canonical_request ext (JObject wrapped_object) =
           Inr (get_image_data content, get_style content) \<and>
         canonical_request ext (JObject content) =
           Inr (get_image_data content, get_style content) \<and>
         lambda_handler ext (JObject wrapped_text) = lambda_handler ext (JObject content) \<and>
         lambda_handler ext (JObject wrapped_object) = lambda_handler ext (JObject content)"
proof -
  have 1: "canonical_request ext (JObject wrapped_text) =
      Inr (get_image_data content, get_style content)"
    using assms by (simp add: canonical_request_def resolve_body_def validate_body_def)
  have 2: "canonical_request ext (JObject wrapped_object) =
      Inr (get_image_data content, get_style content)"
    using assms by (simp add: canonical_request_def resolve_body_def validate_body_def)
  have 3: "canonical_request ext (JObject content) =
      Inr (get_image_data content, get_style content)"
    using assms by (simp add: canonical_request_def resolve_body_def validate_body_def)
  show ?thesis
    using 1 2 3 lambda_handler_canonical[of ext "JObject wrapped_text" "JObject content"]
      lambda_handler_canonical[of ext "JObject wrapped_object" "JObject content"]
    by simp
qed

theorem envelope_shapes_agree_witness:
  "canonical_request sample_ext
     (JObject [(''body'', JString (render_json (JObject sample_content)))]) =
     Inr (JString ''data:image/jpeg;base64,QUJDREVGR0g='', JString ''impressionist'') \<and>
   canonical_request sample_ext (JObject [(''body'', JObject sample_content)]) =
     Inr (JString ''data:image/jpeg;base64,QUJDREVGR0g='', JString ''impressionist'') \<and>
   canonical_request sample_ext (JObject sample_content) =
     Inr (JString ''data:image/jpeg;base64,QUJDREVGR0g='', JString ''impressionist'') \<and>
   lambda_handler sample_ext
     (JObject [(''body'', JString (render_json (JObject sample_content)))]) =
     lambda_handler sample_ext (JObject sample_content) \<and>
   lambda_handler sample_ext (JObject [(''body'', JObject sample_content)]) =
     lambda_handler sample_ext (JObject sample_content)"
proof -
  have l: "json_loads sample_ext (render_json (JObject sample_content)) =
      Loaded (JObject sample_content)"
    by (simp add: sample_defs)
  have c: "get_image_data sample_content = JString ''data:image/jpeg;base64,QUJDREVGR0g=''"
     "get_style sample_content = JString ''impressionist''"
     "map_of sample_content ''body'' = None"
    by (simp_all add: sample_content_def get_image_data_def get_style_def)
  show ?thesis
    using envelope_shapes_agree[of sample_content
      "[(''body'', JString (render_json (JObject sample_content)))]"
      "render_json (JObject sample_content)" sample_ext "[(''body'', JObject sample_content)]"] l c
    by simp
qed

section \<open>The decoder\<close>

text \<open>
  C2, as the code has it. For an \<^verbatim>\<open>imageData\<close> string that begins with \<^verbatim>\<open>data:image\<close>
  the decoder splits at every comma, not at the first one only: it fails with
  \<^verbatim>\<open>Invalid data URL format\<close> (400) exactly when the number of commas is not one, and
  otherwise the working payload is everything after the comma.
\<close>

theorem data_url_split_on_every_comma:
  assumes "startswith s ''data:image''"
  shows "(case decode_image s of
            Inl f \<Rightarrow> f = (''Invalid data URL format'', 400) \<and> count_list s CHR '','' \<noteq> 1
          | Inr (p, m) \<Rightarrow>
              count_list s CHR '','' = 1 \<and> p = tl (dropWhile (\<lambda>c. c \<noteq> CHR '','') s))"
  by (simp add: decode_image_prefixed[OF assms])

theorem data_url_split_on_every_comma_witness:
  "startswith ''data:image/jpeg;base64,QUJDRA=='' ''data:image'' \<and>
   decode_image ''data:image/jpeg;base64,QUJDRA=='' = Inr (''QUJDRA=='', ''image/jpeg'') \<and>
   count_list ''data:image/jpeg;base64,QUJDRA=='' CHR '','' = 1"
  using data_url_split_on_every_comma[of "''data:image/jpeg;base64,QUJDRA==''"]
  by (simp add: startswith_def decode_image_def extract_mime_type_def py_index_def)

text \<open>
  C2 as stated fails: a data URL with a second comma has a comma, and is rejected.
\<close>

theorem second_comma_counterexample:
  "startswith ''data:image/png;base64,AAAA,BBBB'' ''data:image'' \<and>
   CHR '','' \<in> set ''data:image/png;base64,AAAA,BBBB'' \<and>
   decode_image ''data:image/png;base64,AAAA,BBBB'' = Inl (''Invalid data URL format'', 400)"
  by (simp add: startswith_def decode_image_def)

text \<open>
  C3, as the code has it. For every \<^verbatim>\<open>imageData\<close> that the decoder accepts, the MIME type
  begins with \<^verbatim>\<open>image\<close>. When no data-URL prefix is present it is exactly \<^verbatim>\<open>image/png\<close>.
  When the prefix \<^verbatim>\<open>data:image\<close> is present and the prefix portion, the text before the
  comma, reads \<^verbatim>\<open>data:\<close>, a segment \<open>t\<close>, \<^verbatim>\<open>;\<close> and a rest, with no colon or
  semicolon inside \<open>t\<close>, the MIME type is \<open>t\<close>: the segment between the colon and the
  semicolon of the prefix portion.
\<close>

theorem decoded_mime_type:
  assumes "decode_image s = Inr (p, m)"
  shows "startswith m ''image'' \<and>
     (\<not> startswith s ''data:image'' \<longrightarrow> m = ''image/png'') \<and>
     (startswith s ''data:image'' \<and>
      takeWhile (\<lambda>c. c \<noteq> CHR '','') s = ''data:'' @ t @ '';'' @ rest \<and>
      CHR '':'' \<notin> set t \<and> CHR '';'' \<notin> set t \<longrightarrow> m = t)"
proof (cases "startswith s ''data:image''")
  case True
  then obtain r where s: "s = ''data:image'' @ r" using startswith_append by blast
  from True assms have m: "m = takeWhile (\<lambda>c. c \<noteq> CHR '':'' \<and> c \<noteq> CHR '';'') (drop 5 s)"
    by (simp add: decode_image_prefixed split: if_splits)
  have 1: "startswith m ''image''" unfolding m s by (simp add: startswith_def)
  have 2: "m = t"
    if h: "takeWhile (\<lambda>c. c \<noteq> CHR '','') s = ''data:'' @ t @ '';'' @ rest"
      and t: "CHR '':'' \<notin> set t" "CHR '';'' \<notin> set t"
  proof -
    define after where "after = dropWhile (\<lambda>c. c \<noteq> CHR '','') s"
    have "s = takeWhile (\<lambda>c. c \<noteq> CHR '','') s @ after"
      unfolding after_def by simp
    then have eq: "s = ''data:'' @ (t @ CHR '';'' # (rest @ after))"
      unfolding h by simp
    have "drop 5 s = t @ CHR '';'' # (rest @ after)"
      by (subst eq) simp
    moreover have "\<forall>x \<in> set t. x \<noteq> CHR '':'' \<and> x \<noteq> CHR '';''"
      using t by auto
    ultimately show ?thesis unfolding m by (simp add: takeWhile_stops)
  qed
  from True 1 2 show ?thesis by blast
next
  case False
  moreover from False assms have "m = ''image/png''" by (simp add: decode_image_def)
  moreover have "startswith ''image/png'' ''image''" by (simp add: startswith_def)
  ultimately show ?thesis by simp
qed

theorem decoded_mime_type_witness:
  "decode_image ''data:image/jpeg;base64,QUJDRA=='' = Inr (''QUJDRA=='', ''image/jpeg'') \<and>
   startswith ''data:image/jpeg;base64,QUJDRA=='' ''data:image'' \<and>
   takeWhile (\<lambda>c. c \<noteq> CHR '','') ''data:image/jpeg;base64,QUJDRA=='' =
     ''data:'' @ ''image/jpeg'' @ '';'' @ ''base64'' \<and>
   startswith ''image/jpeg'' ''image'' \<and>
   decode_image ''QUJDREVGR0g='' = Inr (''QUJDREVGR0g='', ''image/png'')"
  using decoded_mime_type[where s = "''data:image/jpeg;base64,QUJDRA==''" and p = "''QUJDRA==''"
      and m = "''image/jpeg''" and t = "''image/jpeg''" and rest = "''base64''"]
    decoded_mime_type[where s = "''QUJDREVGR0g=''" and p = "''QUJDREVGR0g=''"
      and m = "''image/png''" and t = "[]" and rest = "[]"]
  by (simp add: startswith_def decode_image_def extract_mime_type_def py_index_def)

text \<open>
  C3 as stated fails: the prefix test is \<^verbatim>\<open>data:image\<close> with no slash, so an accepted
  string can give a MIME type that is not of the form \<^verbatim>\<open>image/<subtype>\<close>.
\<close>

theorem mime_without_slash_counterexample:
  "decode_image ''data:imagex;base64,QUJD'' = Inr (''QUJD'', ''imagex'') \<and>
   \<not> startswith ''imagex'' ''image/''"
  by (simp add: startswith_def decode_image_def extract_mime_type_def py_index_def)


section \<open>Generation, publication and the response\<close>



text \<open>
  C7. Let a request reach the generation client and let the API answer with a reply
  that parses. If the reply has no candidates, or the first candidate has no part with
  a MIME type beginning with \<^verbatim>\<open>image/\<close> and non-empty inline data, the client returns no
  image and the handler returns the error envelope with status 500 and the message
  \<^verbatim>\<open>Failed to generate image\<close>: the body of that envelope holds the message only, the
  prompt is not in it.
\<close>

theorem no_image_part_fails:
  assumes "prepare ext event = Inr (api_key, sketch_data, style, mime_type)"
    and "\<And>url data. urlopen ext url data = Response reply_text"
    and "json_loads ext reply_text = Loaded reply"
    and "reply_candidates reply = [] \<or>
         \<not> list_ex usable_image_part (first_candidate_parts reply)"
  shows "fst (generate_image_from_sketch ext api_key sketch_data style mime_type) = None \<and>
         lambda_handler ext event = error_response ext ''Failed to generate image'' 500"
proof -
  have "extract_image reply \<noteq> Inr (Some g)" for g
    using assms(4) extract_image_Some[of reply g] by blast
  then have "fst (generate_image_from_sketch ext api_key sketch_data style mime_type) = None"
    using assms(2,3) by (rule generate_None)
  then show ?thesis
    using assms(1)
    by (cases "generate_image_from_sketch ext api_key sketch_data style mime_type")
       (simp add: lambda_handler_def respond_def)
qed

theorem no_image_part_fails_witness:
  "\<not> list_ex usable_image_part (first_candidate_parts empty_reply) \<and>
   lambda_handler (sample_ext\<lparr>urlopen := \<lambda>url data. Response (render_json empty_reply)\<rparr>)
     (JObject sample_content) =
   error_response (sample_ext\<lparr>urlopen := \<lambda>url data. Response (render_json empty_reply)\<rparr>)
     ''Failed to generate image'' 500"
proof -
  let ?ext = "sample_ext\<lparr>urlopen := \<lambda>url data. Response (render_json empty_reply)\<rparr>"
  have p: "prepare ?ext (JObject sample_content) =
     Inr (''test-key'', ''QUJDREVGR0g='', JString ''impressionist'', ''image/jpeg'')"
    by (simp add: request_defs sample_defs)
  have u: "urlopen ?ext url data = Response (render_json empty_reply)" for url data
    by simp
  have l: "json_loads ?ext (render_json empty_reply) = Loaded empty_reply"
    by (simp add: sample_defs)
  have n: "\<not> list_ex usable_image_part (first_candidate_parts empty_reply)"
    by (simp add: first_candidate_parts_def reply_candidates_def usable_image_part_def
        empty_reply_def)
  then have "reply_candidates empty_reply = [] \<or>
      \<not> list_ex usable_image_part (first_candidate_parts empty_reply)" by simp
  from no_image_part_fails[OF p u l this] n show ?thesis by simp
qed

text \<open>
  C8. For every request that reaches the generation client and for which the client
  returns an image, the handler returns the success envelope with status 200 and
  \<^verbatim>\<open>success: true\<close>, and the result of the publisher appears in the \<^verbatim>\<open>s3Url\<close> field only.
  With no bucket name, or when decoding the image, the upload or the signing raises,
  that field is \<^verbatim>\<open>null\<close>.
\<close>

theorem publisher_never_alters_outcome:
  assumes "prepare ext event = Inr (api_key, sketch_data, style, mime_type)"
    and "generate_image_from_sketch ext api_key sketch_data style mime_type = (Some g, prompt)"
  shows "lambda_handler ext event =
           success_response ext prompt g (upload_to_s3 ext g style) style \<and>
         statusCode (lambda_handler ext event) = 200 \<and>
         (env_missing (env_S3_BUCKET_NAME ext) \<or> b64decode ext g = None \<or>
          (\<forall>bucket key bytes. \<not> put_object ext bucket key bytes) \<or>
          (\<forall>bucket key. generate_presigned_url ext bucket key = None) \<longrightarrow>
          lambda_handler ext event =
            \<lparr>statusCode = 200,
             headers = cors_headers,
             body = json_dumps ext (JObject
               [(''success'', JBool True),
                (''data'', JObject
                   [(''prompt'', JString prompt),
                    (''imageBase64'',
                       JString (''data:image/png;base64,'' @ format_value ext g)),
                    (''s3Url'', JNull),
                    (''style'', style)])])\<rparr>)"
proof -
  have r: "lambda_handler ext event =
           success_response ext prompt g (upload_to_s3 ext g style) style"
    by (rule lambda_handler_success[OF assms])
  have "upload_to_s3 ext g style = None"
    if "env_missing (env_S3_BUCKET_NAME ext) \<or> b64decode ext g = None \<or>
          (\<forall>bucket key bytes. \<not> put_object ext bucket key bytes) \<or>
          (\<forall>bucket key. generate_presigned_url ext bucket key = None)"
    using that by (auto simp: upload_to_s3_def env_missing_def Let_def split: option.splits)
  then show ?thesis using r by (auto simp: success_response_def)
qed

theorem publisher_never_alters_outcome_witness:
  "(\<forall>bucket key bytes.
      \<not> put_object (sample_ext\<lparr>env_S3_BUCKET_NAME := Some ''drawings'',
                                 put_object := \<lambda>bucket key bytes. False\<rparr>) bucket key bytes) \<and>
   lambda_handler (sample_ext\<lparr>env_S3_BUCKET_NAME := Some ''drawings'',
                              put_object := \<lambda>bucket key bytes. False\<rparr>) (JObject sample_content) =
     \<lparr>statusCode = 200,
      headers = cors_headers,
      body = json_dumps sample_ext (JObject
        [(''success'', JBool True),
         (''data'', JObject
            [(''prompt'', JString ''Transform this sketch into a beautiful image, high quality artistic style, masterpiece quality, professional artwork''),
             (''imageBase64'', JString ''data:image/png;base64,R0VORVJBVEVE''),
             (''s3Url'', JNull),
             (''style'', JString ''impressionist'')])])\<rparr>"
proof -
  let ?ext = "sample_ext\<lparr>env_S3_BUCKET_NAME := Some ''drawings'',
                         put_object := \<lambda>bucket key bytes. False\<rparr>"
  have p: "prepare ?ext (JObject sample_content) =
     Inr (''test-key'', ''QUJDREVGR0g='', JString ''impressionist'', ''image/jpeg'')"
    by (simp add: request_defs sample_defs)
  have g: "generate_image_from_sketch ?ext ''test-key'' ''QUJDREVGR0g=''
      (JString ''impressionist'') ''image/jpeg'' =
     (Some (JString ''R0VORVJBVEVE''),
      ''Transform this sketch into a beautiful image, high quality artistic style, masterpiece quality, professional artwork'')"
    by (rule generate_on_sample_reply) (simp_all add: sample_ext_def sample_loads_def)
  have f: "\<forall>bucket key bytes. \<not> put_object ?ext bucket key bytes" by simp
  from publisher_never_alters_outcome[OF p g] f
  have "lambda_handler ?ext (JObject sample_content) =
     \<lparr>statusCode = 200,
      headers = cors_headers,
      body = json_dumps ?ext (JObject
        [(''success'', JBool True),
         (''data'', JObject
            [(''prompt'', JString ''Transform this sketch into a beautiful image, high quality artistic style, masterpiece quality, professional artwork''),
             (''imageBase64'', JString (''data:image/png;base64,'' @
                 format_value ?ext (JString ''R0VORVJBVEVE''))),
             (''s3Url'', JNull),
             (''style'', JString ''impressionist'')])])\<rparr>"
    by blast
  then show ?thesis using f by (simp add: format_value_def)
qed

text \<open>
  C9. For every style that is a string and is not one of the 10 entries of the table,
  prompt construction does not fail: the style maps to the phrase
  \<^verbatim>\<open>high quality artistic style\<close>, the prompt is the fixed template around that phrase,
  and the client goes on to call the API with it.
\<close>

theorem unknown_style_generic_prompt:
  assumes "s \<notin> {''realistic'', ''anime'', ''cartoon'', ''oil-painting'', ''watercolor'',
                 ''sketch'', ''3d-render'', ''pixel-art'', ''cyberpunk'', ''fantasy''}"
  shows "style_desc (JString s) = Inr ''high quality artistic style'' \<and>
         generate_image_from_sketch ext api_key sketch_data (JString s) mime_type =
           call_api ext api_key sketch_data mime_type
             ''Transform this sketch into a beautiful image, high quality artistic style, masterpiece quality, professional artwork''"
proof -
  from assms have "s \<notin> fst ` set style_prompts" unfolding style_names .
  then have "map_of style_prompts s = None" by (simp add: map_of_eq_None_iff)
  then have "style_desc (JString s) = Inr ''high quality artistic style''"
    by (simp add: style_desc_def)
  then show ?thesis by (simp add: generate_image_from_sketch_def full_prompt_def)
qed

theorem unknown_style_generic_prompt_witness:
  "''impressionist'' \<notin> {''realistic'', ''anime'', ''cartoon'', ''oil-painting'', ''watercolor'',
                 ''sketch'', ''3d-render'', ''pixel-art'', ''cyberpunk'', ''fantasy''} \<and>
   style_desc (JString ''impressionist'') = Inr ''high quality artistic style'' \<and>
   generate_image_from_sketch sample_ext ''test-key'' ''QUJDREVGR0g=''
     (JString ''impressionist'') ''image/png'' =
     (Some (JString ''R0VORVJBVEVE''),
      ''Transform this sketch into a beautiful image, high quality artistic style, masterpiece quality, professional artwork'')"
proof -
  have n: "''impressionist'' \<notin> {''realistic'', ''anime'', ''cartoon'', ''oil-painting'',
      ''watercolor'', ''sketch'', ''3d-render'', ''pixel-art'', ''cyberpunk'', ''fantasy''}"
    by simp
  from unknown_style_generic_prompt[OF n, of sample_ext "''test-key''" "''QUJDREVGR0g=''"
      "''image/png''"]
    n sample_generate[of "''test-key''" "''QUJDREVGR0g=''" "''image/png''"]
  show ?thesis by simp
qed

end
